theory Spec2Isabelle
  imports Complex_Main "HOL-Library.Log_Nat"
begin

section \<open>The session controller of static/script.js\<close>

text \<open>
  The script keeps four variables (\<open>quizData\<close>, \<open>currentQuestionIndex\<close>, \<open>score\<close>,
  \<open>userSelections\<close>) and drives the page through the \<open>hidden\<close> class of its sections and
  buttons. The model is one record holding the variables, the part of the page the script
  reads or writes, and the work the browser still owes the script: callbacks scheduled with
  \<open>setTimeout\<close> and \<open>fetch\<close> calls that have not settled. Each handler is a function from
  state to state; a handler that throws keeps the assignments made before the throw.
\<close>

subsection \<open>Data\<close>

text \<open>One element of the \<open>questions\<close> array, with the property names the script reads.\<close>

record quiz_question =
  question :: string
  "options" :: "string list"
  answer :: string
  explanation :: string

text \<open>
  The markup the script writes is kept as the values it interpolates into its template
  literals: the feedback block (lines 134-143), the question block (lines 106-121) and the
  result message (lines 160-170).
\<close>

datatype feedback_view =
  FeedbackEmpty
  | FeedbackCorrect string
  | FeedbackIncorrect string string

record quiz_view =
  qv_number :: nat
  qv_total :: nat
  qv_question :: string
  qv_options :: "string list"

text \<open>
  The string returned by \<open>toFixed(1)\<close>: \<open>NaN\<close>, \<open>Infinity\<close>, or a decimal with one
  fractional digit, kept as its number of tenths (\<open>80.0\<close> is \<open>PctFixed 800\<close>).
\<close>

datatype percentage = PctNaN | PctInfinity | PctFixed int

datatype tier = Excellent | Good | NeedsReview

record result_view =
  rv_score :: nat
  rv_total :: nat
  rv_percentage :: percentage
  rv_tier :: tier

text \<open>
  A \<open>fetch\<close> that has not settled, with what its continuation captured: the endpoint, the
  body serialised at the call, and for the lesson request the handler's local \<open>topic\<close>.
\<close>

datatype request =
  LessonRequest string "(string \<times> string) list"
  | QuizRequest "(string \<times> string) list"

record state =
  quizData :: "quiz_question list option"
  currentQuestionIndex :: nat
  score :: nat
  userSelections :: "(string \<times> string) list"
  setupSection_hidden :: bool
  lessonSection_hidden :: bool
  quizSection_hidden :: bool
  resultSection_hidden :: bool
  loadingSpinner_hidden :: bool
  startQuizBtn_hidden :: bool
  submitAnswerBtn_hidden :: bool
  subject_value :: string
  topic_value :: string
  level_value :: string
  lessonTitle_text :: string
  lessonContent_source :: string
  quizContent_html :: "quiz_view option"
  feedbackSection_html :: feedback_view
  resultText_html :: "result_view option"
  timers :: nat
  in_flight :: "request list"
  alerts :: "string list"

text \<open>
  \<open>quizData\<close> is \<open>None\<close> for \<open>null\<close>. \<open>userSelections\<close> lists the properties of the object,
  so \<open>{}\<close> is \<open>[]\<close>. The two counters are JavaScript numbers that start at 0 and only
  grow by \<open>++\<close>; they are natural numbers here, exact below \<open>2 ^ 53\<close>.
  \<open>lessonContent_source\<close> is the text handed to \<open>marked.parse\<close>, whose output the element
  shows. \<open>timers\<close> counts the callbacks of line 147 that are scheduled and have not run
  (they are the same closure over the same variables, so a count is enough), \<open>alerts\<close> is
  the list of messages shown with \<open>alert\<close>.
\<close>

datatype js_error = TypeError

datatype outcome = Done state | Uncaught js_error state

fun state_of :: "outcome \<Rightarrow> state" where
  "state_of (Done s) = s"
| "state_of (Uncaught e s) = s"

fun thrown :: "outcome \<Rightarrow> js_error option" where
  "thrown (Done s) = None"
| "thrown (Uncaught e s) = Some e"

datatype screen = Setup | Lesson | Quiz | Result

text \<open>The sections that do not carry the \<open>hidden\<close> class, in page order.\<close>

definition shown :: "state \<Rightarrow> screen list" where
  "shown s =
     (if setupSection_hidden s then [] else [Setup]) @
     (if lessonSection_hidden s then [] else [Lesson]) @
     (if quizSection_hidden s then [] else [Quiz]) @
     (if resultSection_hidden s then [] else [Result])"

subsection \<open>Functions (lines 31-65, 101-122, 157-171)\<close>

definition toggleLoading :: "bool \<Rightarrow> state \<Rightarrow> state" where
  "toggleLoading isLoading s = s\<lparr>loadingSpinner_hidden := \<not> isLoading\<rparr>"

definition resetUI :: "state \<Rightarrow> state" where
  "resetUI s = s\<lparr>
     setupSection_hidden := False,
     lessonSection_hidden := True,
     quizSection_hidden := True,
     resultSection_hidden := True,
     startQuizBtn_hidden := True,
     feedbackSection_html := FeedbackEmpty,
     topic_value := [],
     quizData := None,
     currentQuestionIndex := 0,
     score := 0\<rparr>"

text \<open>
  What a \<open>fetch\<close> can settle to: the promise rejects, or a response arrives with a status
  and a body. The body is not JSON, is JSON \<open>null\<close>, or is a JSON value whose property
  read by the handler is given as \<open>'p\<close>.
\<close>

datatype 'p body = NotJson | JsonNull | Json 'p

datatype 'p settled = Rejected | Response nat "'p body"

definition response_ok :: "nat \<Rightarrow> bool" where
  "response_ok status = (200 \<le> status \<and> status \<le> 299)"

definition fetch_alert :: string where
  "fetch_alert = ''An error occurred. Please check the console and try again.''"

text \<open>
  \<open>fetchAPI\<close> up to its \<open>await\<close>: the spinner is shown and the request leaves.
\<close>

definition fetchAPI_call :: "request \<Rightarrow> state \<Rightarrow> state" where
  "fetchAPI_call r s = (toggleLoading True s)\<lparr>in_flight := in_flight s @ [r]\<rparr>"

text \<open>
  \<open>fetchAPI\<close> from the moment the \<open>fetch\<close> settles: the value returned (\<open>None\<close> for
  \<open>null\<close>), the alert of the \<open>catch\<close> block, and the \<open>finally\<close> block.
\<close>

definition fetchAPI_data :: "'p settled \<Rightarrow> 'p option" where
  "fetchAPI_data r =
     (case r of
        Rejected \<Rightarrow> None
      | Response status b \<Rightarrow>
          if \<not> response_ok status then None
          else (case b of NotJson \<Rightarrow> None | JsonNull \<Rightarrow> None | Json p \<Rightarrow> Some p))"

definition fetchAPI_caught :: "'p settled \<Rightarrow> bool" where
  "fetchAPI_caught r =
     (case r of
        Rejected \<Rightarrow> True
      | Response status b \<Rightarrow>
          if \<not> response_ok status then True
          else (case b of NotJson \<Rightarrow> True | JsonNull \<Rightarrow> False | Json p \<Rightarrow> False))"

definition fetchAPI_settle :: "'p settled \<Rightarrow> state \<Rightarrow> state" where
  "fetchAPI_settle r s =
     toggleLoading False
       (if fetchAPI_caught r then s\<lparr>alerts := alerts s @ [fetch_alert]\<rparr> else s)"

definition render_question :: "nat \<Rightarrow> nat \<Rightarrow> quiz_question \<Rightarrow> quiz_view" where
  "render_question i n q =
     \<lparr>qv_number = i + 1, qv_total = n, qv_question = question q, qv_options = options q\<rparr>"

text \<open>
  \<open>displayQuestion\<close> writes the feedback section and the submit button before it reads
  \<open>quizData[currentQuestionIndex]\<close>; indexing \<open>null\<close> throws, and an index out of range
  gives \<open>undefined\<close>, whose \<open>options\<close> throws.
\<close>

definition displayQuestion :: "state \<Rightarrow> outcome" where
  "displayQuestion s =
     (let s1 = s\<lparr>feedbackSection_html := FeedbackEmpty, submitAnswerBtn_hidden := False\<rparr> in
      case quizData s1 of
        None \<Rightarrow> Uncaught TypeError s1
      | Some qs \<Rightarrow>
          if currentQuestionIndex s1 < length qs
          then Done (s1\<lparr>quizContent_html :=
                 Some (render_question (currentQuestionIndex s1) (length qs)
                         (qs ! currentQuestionIndex s1))\<rparr>)
          else Uncaught TypeError s1)"

subsection \<open>The arithmetic of showResults\<close>

text \<open>
  \<open>score / quizData.length\<close> and the product with 100 are IEEE 754 double operations:
  the exact result rounded to 53 significant bits, ties to even. A double is kept as the
  rational it denotes. The values that occur are far from the overflow and subnormal ranges.
\<close>

definition pow2 :: "int \<Rightarrow> rat" where
  "pow2 e = (if 0 \<le> e then 2 ^ nat e else 1 / 2 ^ nat (- e))"

definition round_even :: "rat \<Rightarrow> int" where
  "round_even x =
     (let f = \<lfloor>x\<rfloor>; d = x - of_int f in
      if d < 1 / 2 then f
      else if 1 / 2 < d then f + 1
      else if even f then f else f + 1)"

definition ilog2 :: "rat \<Rightarrow> int" where
  "ilog2 x =
     (let k = bitlen (fst (quotient_of x)) - bitlen (snd (quotient_of x)) in
      if pow2 k \<le> x then k else k - 1)"

definition to_double :: "rat \<Rightarrow> rat" where
  "to_double x =
     (if x = 0 then 0
      else (let e = ilog2 \<bar>x\<bar> - 52 in of_int (round_even (x / pow2 e)) * pow2 e))"

text \<open>The double that \<open>(score / quizData.length) * 100\<close> evaluates to, for a length above 0.\<close>

definition js_percent :: "nat \<Rightarrow> nat \<Rightarrow> rat" where
  "js_percent sc n = to_double (to_double (of_nat sc / of_nat n) * 100)"

text \<open>
  \<open>((score / quizData.length) * 100).toFixed(1)\<close>. Division by a length of 0 gives
  \<open>NaN\<close> for a score of 0 and \<open>Infinity\<close> otherwise. \<open>toFixed(1)\<close> takes the integer
  \<open>n\<close> with \<open>n / 10\<close> nearest to the double, the larger one on a tie.
\<close>

definition percentage_of :: "nat \<Rightarrow> nat \<Rightarrow> percentage" where
  "percentage_of sc n =
     (if n = 0 then (if sc = 0 then PctNaN else PctInfinity)
      else PctFixed (round (10 * js_percent sc n)))"

text \<open>
  \<open>percentage >= 80\<close> compares the string with a number, so the string is converted back:
  \<open>NaN\<close> compares false, \<open>Infinity\<close> true.
\<close>

fun pct_ge :: "percentage \<Rightarrow> int \<Rightarrow> bool" where
  "pct_ge PctNaN k = False"
| "pct_ge PctInfinity k = True"
| "pct_ge (PctFixed t) k = (10 * k \<le> t)"

definition tier_of :: "percentage \<Rightarrow> tier" where
  "tier_of p = (if pct_ge p 80 then Excellent else if pct_ge p 60 then Good else NeedsReview)"

definition showResults :: "state \<Rightarrow> outcome" where
  "showResults s =
     (let s1 = s\<lparr>quizSection_hidden := True, resultSection_hidden := False\<rparr> in
      case quizData s1 of
        None \<Rightarrow> Uncaught TypeError s1
      | Some qs \<Rightarrow>
          (let p = percentage_of (score s1) (length qs) in
           Done (s1\<lparr>resultText_html :=
             Some \<lparr>rv_score = score s1, rv_total = length qs,
                   rv_percentage = p, rv_tier = tier_of p\<rparr>\<rparr>)))"

subsection \<open>Event handlers (lines 68-99, 124-155, 173)\<close>

text \<open>
  The generate handler up to the \<open>await\<close>. An empty topic is falsy: the handler alerts and
  returns.
\<close>

definition topic_alert :: string where
  "topic_alert = ''Please enter a topic.''"

definition generateBtn_click :: "state \<Rightarrow> state" where
  "generateBtn_click s =
     (let subject = subject_value s; topic = topic_value s; level = level_value s in
      if topic = [] then s\<lparr>alerts := alerts s @ [topic_alert]\<rparr>
      else
        (let s1 = s\<lparr>userSelections :=
                     [(''subject'', subject), (''topic'', topic), (''level'', level)]\<rparr>
         in fetchAPI_call (LessonRequest topic (userSelections s1)) s1))"

text \<open>
  The generate handler after the \<open>await\<close>. The payload is the \<open>lesson_html\<close> property when
  the response has one; the empty string is falsy.
\<close>

definition generateBtn_settled :: "string \<Rightarrow> string option settled \<Rightarrow> state \<Rightarrow> state" where
  "generateBtn_settled topic r s =
     (let s1 = fetchAPI_settle r s in
      case fetchAPI_data r of
        None \<Rightarrow> s1
      | Some None \<Rightarrow> s1
      | Some (Some lesson_html) \<Rightarrow>
          if lesson_html = [] then s1
          else s1\<lparr>lessonTitle_text := ''Lesson: '' @ topic,
                  lessonContent_source := lesson_html,
                  setupSection_hidden := True,
                  lessonSection_hidden := False,
                  startQuizBtn_hidden := False\<rparr>)"

definition startQuizBtn_click :: "state \<Rightarrow> state" where
  "startQuizBtn_click s = fetchAPI_call (QuizRequest (userSelections s)) s"

text \<open>
  The start-quiz handler after the \<open>await\<close>. The payload is the \<open>questions\<close> property when
  the response has one; an array is truthy whatever its length.
\<close>

definition startQuizBtn_settled :: "quiz_question list option settled \<Rightarrow> state \<Rightarrow> outcome" where
  "startQuizBtn_settled r s =
     (let s1 = fetchAPI_settle r s in
      case fetchAPI_data r of
        None \<Rightarrow> Done s1
      | Some None \<Rightarrow> Done s1
      | Some (Some questions) \<Rightarrow>
          displayQuestion (s1\<lparr>quizData := Some questions,
                              lessonSection_hidden := True,
                              quizSection_hidden := False\<rparr>))"

definition answer_alert :: string where
  "answer_alert = ''Please select an answer.''"

text \<open>
  The submit handler. Its argument is the value of the checked radio button, \<open>None\<close> when
  \<open>querySelector\<close> finds none. Reading the question throws on \<open>null\<close>, and reading
  \<open>answer\<close> throws when the index is out of range; both happen before any assignment.
\<close>

definition submitAnswerBtn_click :: "string option \<Rightarrow> state \<Rightarrow> outcome" where
  "submitAnswerBtn_click selectedOption s =
     (case selectedOption of
        None \<Rightarrow> Done (s\<lparr>alerts := alerts s @ [answer_alert]\<rparr>)
      | Some userAnswer \<Rightarrow>
          (case quizData s of
             None \<Rightarrow> Uncaught TypeError s
           | Some qs \<Rightarrow>
               if \<not> currentQuestionIndex s < length qs then Uncaught TypeError s
               else
                 (let q = qs ! currentQuestionIndex s;
                      s1 = (if userAnswer = answer q then s\<lparr>score := score s + 1\<rparr> else s);
                      fb = (if userAnswer = answer q then FeedbackCorrect (explanation q)
                            else FeedbackIncorrect (answer q) (explanation q))
                  in Done (s1\<lparr>feedbackSection_html := fb,
                              submitAnswerBtn_hidden := True,
                              timers := timers s1 + 1\<rparr>))))"

text \<open>The callback of line 147, run when its 2500 ms have passed.\<close>

definition advance :: "state \<Rightarrow> outcome" where
  "advance s =
     (let s1 = s\<lparr>currentQuestionIndex := currentQuestionIndex s + 1\<rparr> in
      case quizData s1 of
        None \<Rightarrow> Uncaught TypeError s1
      | Some qs \<Rightarrow>
          if currentQuestionIndex s1 < length qs then displayQuestion s1 else showResults s1)"

definition restartBtn_click :: "state \<Rightarrow> state" where
  "restartBtn_click s = resetUI s"

subsection \<open>The event loop\<close>

text \<open>
  What can happen to the page: the user edits the form or clicks a button, a \<open>fetch\<close>
  settles, a timer fires. A timer fires only if one is scheduled, and a \<open>fetch\<close> settles
  only if one of its kind is in flight (the oldest one is taken); otherwise the event does
  nothing. An uncaught exception ends the handler and the loop goes on.
\<close>

datatype event =
  EditForm string string string
  | GenerateClick
  | LessonSettles "string option settled"
  | StartQuizClick
  | QuizSettles "quiz_question list option settled"
  | SubmitClick "string option"
  | TimerFires
  | RestartClick

fun is_lesson :: "request \<Rightarrow> bool" where
  "is_lesson (LessonRequest t b) = True"
| "is_lesson (QuizRequest b) = False"

fun remove_first :: "('a \<Rightarrow> bool) \<Rightarrow> 'a list \<Rightarrow> 'a list" where
  "remove_first P [] = []"
| "remove_first P (x # xs) = (if P x then xs else x # remove_first P xs)"

fun step :: "event \<Rightarrow> state \<Rightarrow> outcome" where
  "step (EditForm subject topic level) s =
     Done (s\<lparr>subject_value := subject, topic_value := topic, level_value := level\<rparr>)"
| "step GenerateClick s = Done (generateBtn_click s)"
| "step (LessonSettles r) s =
     (case find is_lesson (in_flight s) of
        Some (LessonRequest topic b) \<Rightarrow>
          Done (generateBtn_settled topic r
                  (s\<lparr>in_flight := remove_first is_lesson (in_flight s)\<rparr>))
      | _ \<Rightarrow> Done s)"
| "step StartQuizClick s = Done (startQuizBtn_click s)"
| "step (QuizSettles r) s =
     (case find (\<lambda>x. \<not> is_lesson x) (in_flight s) of
        Some x \<Rightarrow>
          startQuizBtn_settled r
            (s\<lparr>in_flight := remove_first (\<lambda>x. \<not> is_lesson x) (in_flight s)\<rparr>)
      | None \<Rightarrow> Done s)"
| "step (SubmitClick selectedOption) s = submitAnswerBtn_click selectedOption s"
| "step TimerFires s =
     (if timers s = 0 then Done s else advance (s\<lparr>timers := timers s - 1\<rparr>))"
| "step RestartClick s = Done (restartBtn_click s)"

fun run :: "event list \<Rightarrow> state \<Rightarrow> state" where
  "run [] s = s"
| "run (e # es) s = run es (state_of (step e s))"

text \<open>
  The state when the \<open>DOMContentLoaded\<close> listener has run its declarations (lines 25-28):
  the page \<open>d\<close> as the document delivers it, the four variables at their initialisers,
  nothing scheduled and nothing in flight. The last statement of the listener (line 176)
  calls \<open>resetUI\<close>.
\<close>

definition page_load :: "state \<Rightarrow> state" where
  "page_load d = d\<lparr>quizData := None, currentQuestionIndex := 0, score := 0,
     userSelections := [], timers := 0, in_flight := [], alerts := []\<rparr>"

definition initial_state :: "state \<Rightarrow> state" where
  "initial_state d = resetUI (page_load d)"

subsection \<open>A concrete session\<close>

text \<open>
  A page as the document could deliver it, two questions, and the events that lead from
  the start of the session to the lesson and to the quiz. They are the inputs at which
  the theorems below are evaluated.
\<close>

definition example_page :: state where
  "example_page = \<lparr>
     quizData = None, currentQuestionIndex = 0, score = 0, userSelections = [],
     setupSection_hidden = False, lessonSection_hidden = True, quizSection_hidden = True,
     resultSection_hidden = True, loadingSpinner_hidden = True, startQuizBtn_hidden = True,
     submitAnswerBtn_hidden = False,
     subject_value = ''Math'', topic_value = [], level_value = ''Beginner'',
     lessonTitle_text = [], lessonContent_source = [], quizContent_html = None,
     feedbackSection_html = FeedbackEmpty, resultText_html = None,
     timers = 0, in_flight = [], alerts = []\<rparr>"

definition q1 :: quiz_question where
  "q1 = \<lparr>question = ''1/2 + 1/4 = ?'', options = [''3/4'', ''2/6''], answer = ''3/4'',
     explanation = ''Use the common denominator 4.''\<rparr>"

definition q2 :: quiz_question where
  "q2 = \<lparr>question = ''Which is larger?'', options = [''1/3'', ''1/2''], answer = ''1/2'',
     explanation = ''Halves are larger than thirds.''\<rparr>"

definition lesson_ok :: "string option settled" where
  "lesson_ok = Response 200 (Json (Some ''# Fractions''))"

definition quiz_ok :: "quiz_question list \<Rightarrow> quiz_question list option settled" where
  "quiz_ok qs = Response 200 (Json (Some qs))"

definition to_lesson :: "event list" where
  "to_lesson =
     [EditForm ''Math'' ''Fractions'' ''Beginner'', GenerateClick, LessonSettles lesson_ok]"

definition to_quiz :: "quiz_question list \<Rightarrow> event list" where
  "to_quiz qs = to_lesson @ [StartQuizClick, QuizSettles (quiz_ok qs)]"

definition stale_advance :: "event list" where
  "stale_advance = to_quiz [q1, q2] @ [SubmitClick (Some ''3/4''), RestartClick, TimerFires]"

definition quiz_begun :: state where
  "quiz_begun = run (to_quiz [q1, q2]) (initial_state example_page)"


subsection \<open>Notions used by the properties\<close>

text \<open>The ten fields that \<open>resetUI\<close> assigns.\<close>

definition reset_fields ::
  "state \<Rightarrow> bool \<times> bool \<times> bool \<times> bool \<times> bool \<times> feedback_view \<times> string \<times>
     quiz_question list option \<times> nat \<times> nat" where
  "reset_fields s =
     (setupSection_hidden s, lessonSection_hidden s, quizSection_hidden s,
      resultSection_hidden s, startQuizBtn_hidden s, feedbackSection_html s, topic_value s,
      quizData s, currentQuestionIndex s, score s)"

text \<open>The twelve fields that \<open>resetUI\<close> does not assign.\<close>

definition kept_fields ::
  "state \<Rightarrow> (string \<times> string) list \<times> bool \<times> bool \<times> string \<times> string \<times> string \<times> string \<times>
     quiz_view option \<times> result_view option \<times> nat \<times> request list \<times> string list" where
  "kept_fields s =
     (userSelections s, loadingSpinner_hidden s, submitAnswerBtn_hidden s, subject_value s,
      level_value s, lessonTitle_text s, lessonContent_source s, quizContent_html s,
      resultText_html s, timers s, in_flight s, alerts s)"

text \<open>
  A generation call that fails: the transport fails, the status is not a success, the body
  does not parse, or the parsed body lacks the property the handler reads.
\<close>

fun generation_error :: "'a option settled \<Rightarrow> bool" where
  "generation_error Rejected = True"
| "generation_error (Response status NotJson) = True"
| "generation_error (Response status JsonNull) = True"
| "generation_error (Response status (Json None)) = True"
| "generation_error (Response status (Json (Some x))) = (\<not> response_ok status)"

text \<open>The screen, the quiz, the two counters and the stored lesson are those of \<open>s\<close>.\<close>

definition session_kept :: "state \<Rightarrow> state \<Rightarrow> bool" where
  "session_kept s s' =
     (shown s' = shown s \<and> quizData s' = quizData s \<and>
      currentQuestionIndex s' = currentQuestionIndex s \<and> score s' = score s \<and>
      lessonTitle_text s' = lessonTitle_text s \<and>
      lessonContent_source s' = lessonContent_source s)"

text \<open>
  A quiz run: the events between the start of a quiz and its result. The submit button can
  be clicked while it does not carry the \<open>hidden\<close> class, and a timer can fire while one is
  scheduled. \<open>quiz_run\<close> is \<open>None\<close> for a list of events that cannot happen in this order.
  A run starts where a quiz has just been started from a reset session: the questions are
  stored, both counters are 0, no timer is scheduled and the Quiz section is the one shown.
\<close>

fun quiz_enabled :: "event \<Rightarrow> state \<Rightarrow> bool" where
  "quiz_enabled (SubmitClick selectedOption) s = (\<not> submitAnswerBtn_hidden s)"
| "quiz_enabled TimerFires s = (0 < timers s)"
| "quiz_enabled e s = False"

fun quiz_run :: "event list \<Rightarrow> state \<Rightarrow> state option" where
  "quiz_run [] s = Some s"
| "quiz_run (e # es) s =
     (if quiz_enabled e s then quiz_run es (state_of (step e s)) else None)"

definition quiz_start :: "quiz_question list \<Rightarrow> state \<Rightarrow> bool" where
  "quiz_start qs s =
     (quizData s = Some qs \<and> qs \<noteq> [] \<and> currentQuestionIndex s = 0 \<and> score s = 0 \<and>
      timers s = 0 \<and> shown s = [Quiz])"



text \<open>What holds of every state of a quiz run over the questions \<open>qs\<close>.\<close>

definition quiz_inv :: "quiz_question list \<Rightarrow> state \<Rightarrow> bool" where
  "quiz_inv qs s =
     (quizData s = Some qs \<and>
      currentQuestionIndex s + timers s \<le> length qs \<and>
      score s \<le> currentQuestionIndex s + timers s \<and>
      timers s \<le> 1 \<and>
      (timers s = 1 \<or> currentQuestionIndex s = length qs \<longrightarrow> submitAnswerBtn_hidden s) \<and>
      shown s = (if currentQuestionIndex s = length qs then [Result] else [Quiz]))"

section \<open>Properties\<close>

subsection \<open>Restart and the start of the session\<close>

text \<open>
  C3, as the code has it. From every state, \<open>restart()\<close> leaves the Setup section as the
  only one shown, the quiz \<open>null\<close>, the index and the score 0, the topic input and the
  feedback empty and the start-quiz button hidden, and a second restart changes nothing
  more. It assigns neither \<open>userSelections\<close> nor the loading spinner: both stay as they
  were before the restart.
\<close>

theorem restart_resets_session:
  "shown (restartBtn_click s) = [Setup] \<and>
   quizData (restartBtn_click s) = None \<and>
   currentQuestionIndex (restartBtn_click s) = 0 \<and>
   score (restartBtn_click s) = 0 \<and>
   topic_value (restartBtn_click s) = [] \<and>
   feedbackSection_html (restartBtn_click s) = FeedbackEmpty \<and>
   startQuizBtn_hidden (restartBtn_click s) \<and>
   userSelections (restartBtn_click s) = userSelections s \<and>
   loadingSpinner_hidden (restartBtn_click s) = loadingSpinner_hidden s \<and>
   restartBtn_click (restartBtn_click s) = restartBtn_click s"
  by (simp add: restartBtn_click_def resetUI_def shown_def)

text \<open>
  C3 as stated fails: after a lesson has been generated, a restart keeps the selections of
  that lesson, while the session starts with none, so the state after the restart is not
  the initial state.
\<close>

theorem restart_selections_counterexample:
  "userSelections (run (to_lesson @ [RestartClick]) (initial_state example_page)) =
     [(''subject'', ''Math''), (''topic'', ''Fractions''), (''level'', ''Beginner'')] \<and>
   userSelections (initial_state example_page) = [] \<and>
   run (to_lesson @ [RestartClick]) (initial_state example_page) \<noteq> initial_state example_page"
  by code_simp

text \<open>
  C10 as stated fails: the state after a restart is not always the state at the start of
  the session. After a lesson has been generated, a restart gives the fields that
  \<open>resetUI\<close> assigns the values they had at the start, but the lesson text is still the
  generated one, while at the start it is the one of the loaded page.
\<close>

theorem restart_not_initial_counterexample:
  "reset_fields (restartBtn_click (run to_lesson (initial_state example_page))) =
     reset_fields (initial_state example_page) \<and>
   lessonContent_source (restartBtn_click (run to_lesson (initial_state example_page))) =
     ''# Fractions'' \<and>
   lessonContent_source (initial_state example_page) = [] \<and>
   restartBtn_click (run to_lesson (initial_state example_page)) \<noteq> initial_state example_page"
  by code_simp

lemma resetUI_eq_iff:
  "resetUI s = resetUI s' \<longleftrightarrow> kept_fields s = kept_fields s'"
  (is "?l \<longleftrightarrow> ?r")
proof
  assume ?l
  then have "kept_fields (resetUI s) = kept_fields (resetUI s')"
    by simp
  then show ?r
    by (simp add: kept_fields_def resetUI_def)
next
  assume ?r
  then show ?l
    by (intro state.equality) (simp_all add: kept_fields_def resetUI_def)
qed

lemma resetUI_idem: "resetUI (resetUI s) = resetUI s"
  by (simp add: resetUI_def)

text \<open>
  C10, as the code has it. The state at the start of the session is the restart handler
  applied to the loaded page (the page as delivered, with the quiz \<open>null\<close> and both counters
  0), and the restart event runs that handler and nothing else.
  After a restart from any state, and at the start of the session, the ten fields the
  routine assigns have the same values: Setup shown, the other three sections and the
  start-quiz button hidden, feedback and topic input empty, quiz \<open>null\<close>, index and score
  0. The twelve fields it does not assign keep the values they had before the restart; at
  the start of the session they are those of the loaded page, with no selections, no timer
  scheduled, no request in flight and no alert. So the state after a restart is the state
  at the start of the session exactly when those twelve fields have their values of the
  start.
\<close>

theorem initial_state_is_restart:
  "initial_state d = restartBtn_click (page_load d) \<and>
   reset_fields (page_load d) =
     (setupSection_hidden d, lessonSection_hidden d, quizSection_hidden d,
      resultSection_hidden d, startQuizBtn_hidden d, feedbackSection_html d, topic_value d,
      None, 0, 0) \<and>
   step RestartClick s = Done (restartBtn_click s) \<and>
   reset_fields (restartBtn_click s) =
     (False, True, True, True, True, FeedbackEmpty, [], None, 0, 0) \<and>
   reset_fields (initial_state d) =
     (False, True, True, True, True, FeedbackEmpty, [], None, 0, 0) \<and>
   kept_fields (restartBtn_click s) = kept_fields s \<and>
   kept_fields (initial_state d) =
     ([], loadingSpinner_hidden d, submitAnswerBtn_hidden d, subject_value d, level_value d,
      lessonTitle_text d, lessonContent_source d, quizContent_html d, resultText_html d,
      0, [], []) \<and>
   (restartBtn_click s = initial_state d \<longleftrightarrow> kept_fields s = kept_fields (initial_state d))"
proof -
  have a: "initial_state d = restartBtn_click (page_load d)"
    by (simp add: initial_state_def restartBtn_click_def)
  have p: "reset_fields (page_load d) =
     (setupSection_hidden d, lessonSection_hidden d, quizSection_hidden d,
      resultSection_hidden d, startQuizBtn_hidden d, feedbackSection_html d, topic_value d,
      None, 0, 0)"
    by (simp add: reset_fields_def page_load_def)
  have b: "step RestartClick s = Done (restartBtn_click s)"
    by simp
  have c: "reset_fields (restartBtn_click s) =
     (False, True, True, True, True, FeedbackEmpty, [], None, 0, 0)"
    by (simp add: reset_fields_def restartBtn_click_def resetUI_def)
  have c': "reset_fields (initial_state d) =
     (False, True, True, True, True, FeedbackEmpty, [], None, 0, 0)"
    by (simp add: reset_fields_def initial_state_def resetUI_def)
  have e: "kept_fields (restartBtn_click s) = kept_fields s"
    by (simp add: kept_fields_def restartBtn_click_def resetUI_def)
  have f: "kept_fields (initial_state d) =
     ([], loadingSpinner_hidden d, submitAnswerBtn_hidden d, subject_value d, level_value d,
      lessonTitle_text d, lessonContent_source d, quizContent_html d, resultText_html d,
      0, [], [])"
    by (simp add: kept_fields_def initial_state_def resetUI_def page_load_def)
  have "restartBtn_click s = initial_state d \<longleftrightarrow> resetUI s = resetUI (initial_state d)"
    by (simp add: restartBtn_click_def initial_state_def resetUI_idem)
  then have g: "restartBtn_click s = initial_state d \<longleftrightarrow>
      kept_fields s = kept_fields (initial_state d)"
    by (simp only: resetUI_eq_iff)
  show ?thesis
    by (intro conjI a p b c c' e f g)
qed

theorem initial_state_is_restart_witness:
  "kept_fields (initial_state example_page) = kept_fields (initial_state example_page) \<and>
   restartBtn_click (initial_state example_page) = initial_state example_page \<and>
   kept_fields (run to_lesson (initial_state example_page)) \<noteq>
     kept_fields (initial_state example_page) \<and>
   restartBtn_click (run to_lesson (initial_state example_page)) \<noteq> initial_state example_page"
proof -
  have k: "kept_fields (run to_lesson (initial_state example_page)) \<noteq>
     kept_fields (initial_state example_page)"
    by code_simp
  show ?thesis
    using k initial_state_is_restart [of example_page "initial_state example_page"]
      initial_state_is_restart [of example_page "run to_lesson (initial_state example_page)"]
    by blast
qed

subsection \<open>Validation and generation errors\<close>

text \<open>
  C8. With an empty topic input, whatever the subject and the level, the generate handler
  only shows the alert asking for a topic: no request leaves, the sections shown are the
  same, and apart from the list of alerts the state is the one before the click.
\<close>

theorem empty_topic_rejected:
  assumes "topic_value s = []"
  shows "step GenerateClick s = Done (s\<lparr>alerts := alerts s @ [topic_alert]\<rparr>) \<and>
    in_flight (generateBtn_click s) = in_flight s \<and>
    shown (generateBtn_click s) = shown s \<and>
    (generateBtn_click s)\<lparr>alerts := alerts s\<rparr> = s"
  using assms by (simp add: generateBtn_click_def shown_def)

theorem empty_topic_rejected_witness:
  "topic_value (initial_state example_page) = [] \<and>
   step GenerateClick (initial_state example_page) =
     Done ((initial_state example_page)
             \<lparr>alerts := alerts (initial_state example_page) @ [topic_alert]\<rparr>) \<and>
   in_flight (generateBtn_click (initial_state example_page)) =
     in_flight (initial_state example_page) \<and>
   shown (generateBtn_click (initial_state example_page)) = shown (initial_state example_page)"
proof -
  have h: "topic_value (initial_state example_page) = []"
    by (simp add: initial_state_def resetUI_def)
  show ?thesis
    using empty_topic_rejected [OF h] h by blast
qed

lemma fetchAPI_settle_fields:
  "shown (fetchAPI_settle r s) = shown s"
  "quizData (fetchAPI_settle r s) = quizData s"
  "currentQuestionIndex (fetchAPI_settle r s) = currentQuestionIndex s"
  "score (fetchAPI_settle r s) = score s"
  "lessonTitle_text (fetchAPI_settle r s) = lessonTitle_text s"
  "lessonContent_source (fetchAPI_settle r s) = lessonContent_source s"
  "loadingSpinner_hidden (fetchAPI_settle r s)"
  by (simp_all add: fetchAPI_settle_def toggleLoading_def shown_def)

lemma generation_error_data:
  "generation_error r \<Longrightarrow> fetchAPI_data r = None \<or> fetchAPI_data r = Some None"
  by (cases r rule: generation_error.cases) (simp_all add: fetchAPI_data_def)

lemma generateBtn_settled_error:
  "generation_error r \<Longrightarrow> generateBtn_settled topic r s = fetchAPI_settle r s"
  using generation_error_data [of r] by (auto simp: generateBtn_settled_def)

lemma startQuizBtn_settled_error:
  "generation_error r \<Longrightarrow> startQuizBtn_settled r s = Done (fetchAPI_settle r s)"
  using generation_error_data [of r] by (auto simp: startQuizBtn_settled_def)

lemma click_session_kept:
  "session_kept s (generateBtn_click s)" "session_kept s (startQuizBtn_click s)"
  by (simp_all add: session_kept_def generateBtn_click_def startQuizBtn_click_def
      fetchAPI_call_def toggleLoading_def shown_def Let_def)

lemma settle_session_kept: "session_kept s (fetchAPI_settle r s)"
  by (simp add: session_kept_def fetchAPI_settle_fields)

text \<open>
  C9. When a generation call fails (\<open>rl\<close> for the lesson request, \<open>rq\<close> for the quiz
  request), neither the click nor the settling of the request changes the sections shown,
  the quiz, the index, the score or the stored lesson, in whatever state \<open>s\<close> the handler
  runs; the spinner is hidden when the request has settled, and the quiz handler does not
  throw.
\<close>

theorem generation_error_keeps_session:
  assumes "generation_error rl" and "generation_error rq"
  shows "session_kept s (generateBtn_click s) \<and>
    session_kept s (generateBtn_settled topic rl s) \<and>
    loadingSpinner_hidden (generateBtn_settled topic rl s) \<and>
    session_kept s (startQuizBtn_click s) \<and>
    thrown (startQuizBtn_settled rq s) = None \<and>
    session_kept s (state_of (startQuizBtn_settled rq s)) \<and>
    loadingSpinner_hidden (state_of (startQuizBtn_settled rq s))"
  using assms
  by (simp add: generateBtn_settled_error startQuizBtn_settled_error click_session_kept
      settle_session_kept fetchAPI_settle_fields)

theorem generation_error_keeps_session_witness:
  "generation_error (Response 500 (Json (Some ''# Fractions''))) \<and>
   generation_error (Response 200 (Json (None :: quiz_question list option))) \<and>
   shown (run (to_lesson @ [StartQuizClick]) (initial_state example_page)) = [Lesson] \<and>
   session_kept (run (to_lesson @ [StartQuizClick]) (initial_state example_page))
     (state_of (startQuizBtn_settled (Response 200 (Json None))
        (run (to_lesson @ [StartQuizClick]) (initial_state example_page)))) \<and>
   session_kept (initial_state example_page)
     (generateBtn_settled ''Fractions'' (Response 500 (Json (Some ''# Fractions'')))
        (initial_state example_page))"
proof -
  have l: "generation_error (Response 500 (Json (Some ''# Fractions'')))"
    by (simp add: response_ok_def)
  have q: "generation_error (Response 200 (Json (None :: quiz_question list option)))"
    by simp
  have v: "shown (run (to_lesson @ [StartQuizClick]) (initial_state example_page)) = [Lesson]"
    by code_simp
  show ?thesis
    using l q v
      generation_error_keeps_session [OF l q, of "initial_state example_page" "''Fractions''"]
      generation_error_keeps_session
        [OF l q, of "run (to_lesson @ [StartQuizClick]) (initial_state example_page)"]
    by blast
qed

subsection \<open>Starting the quiz\<close>

text \<open>
  C2 as stated fails: a successful response whose question sequence is empty takes the
  page from the Lesson section to the Quiz section.
\<close>

theorem empty_quiz_counterexample:
  "shown (run (to_lesson @ [StartQuizClick]) (initial_state example_page)) = [Lesson] \<and>
   shown (run (to_lesson @ [StartQuizClick, QuizSettles (Response 200 (Json (Some [])))])
            (initial_state example_page)) = [Quiz]"
  by code_simp

text \<open>
  C2, as the code has it. The start-quiz handler tests only that the response has a
  \<open>questions\<close> property. A successful response that has one, of whatever length and so
  also of length 0, is stored as the quiz, the Lesson section is hidden and the Quiz section
  is shown; from the Lesson screen the screen becomes Quiz. A successful response without
  the property leaves the screen and the session as they were.
\<close>

theorem present_questions_show_quiz:
  assumes "response_ok status"
  shows "quizData (state_of (startQuizBtn_settled (Response status (Json (Some qs))) s)) =
      Some qs \<and>
    lessonSection_hidden (state_of (startQuizBtn_settled (Response status (Json (Some qs))) s)) \<and>
    \<not> quizSection_hidden (state_of (startQuizBtn_settled (Response status (Json (Some qs))) s)) \<and>
    (shown s = [Lesson] \<longrightarrow>
       shown (state_of (startQuizBtn_settled (Response status (Json (Some qs))) s)) = [Quiz]) \<and>
    session_kept s (state_of (startQuizBtn_settled (Response status (Json None)) s))"
  using assms
  by (auto simp: startQuizBtn_settled_def fetchAPI_data_def fetchAPI_settle_def
      toggleLoading_def displayQuestion_def shown_def session_kept_def Let_def
      split: if_splits)

theorem present_questions_show_quiz_witness:
  "response_ok 200 \<and>
   shown (run (to_lesson @ [StartQuizClick]) (initial_state example_page)) = [Lesson] \<and>
   quizData (state_of (startQuizBtn_settled (Response 200 (Json (Some [])))
     (run (to_lesson @ [StartQuizClick]) (initial_state example_page)))) = Some [] \<and>
   shown (state_of (startQuizBtn_settled (Response 200 (Json (Some [])))
     (run (to_lesson @ [StartQuizClick]) (initial_state example_page)))) = [Quiz]"
proof -
  have h: "response_ok 200"
    by (simp add: response_ok_def)
  have v: "shown (run (to_lesson @ [StartQuizClick]) (initial_state example_page)) = [Lesson]"
    by code_simp
  show ?thesis
    using h v present_questions_show_quiz
      [OF h, of "[]" "run (to_lesson @ [StartQuizClick]) (initial_state example_page)"]
    by blast
qed

text \<open>
  C7 as stated fails: the handler does not assign \<open>currentQuestionIndex\<close>. After a restart
  during the feedback delay the stale timer leaves the index at 1; the next quiz is then
  started with index 1 and shows its second question.
\<close>

theorem startQuiz_keeps_index_counterexample:
  "currentQuestionIndex (run (stale_advance @ to_lesson @ [StartQuizClick])
     (initial_state example_page)) = 1 \<and>
   currentQuestionIndex
     (run (stale_advance @ to_lesson @ [StartQuizClick, QuizSettles (quiz_ok [q1, q2])])
        (initial_state example_page)) = 1 \<and>
   quizContent_html
     (run (stale_advance @ to_lesson @ [StartQuizClick, QuizSettles (quiz_ok [q1, q2])])
        (initial_state example_page)) = Some (render_question 1 2 q2)"
  by code_simp

lemma generateBtn_click_counters:
  "currentQuestionIndex (generateBtn_click s) = currentQuestionIndex s"
  "score (generateBtn_click s) = score s"
  by (simp_all add: generateBtn_click_def fetchAPI_call_def toggleLoading_def Let_def)

lemma generateBtn_settled_counters:
  "currentQuestionIndex (generateBtn_settled topic r s) = currentQuestionIndex s"
  "score (generateBtn_settled topic r s) = score s"
  by (simp_all add: generateBtn_settled_def fetchAPI_settle_def toggleLoading_def Let_def
      split: option.splits)

lemma lesson_step_counters:
  "currentQuestionIndex (state_of (step (LessonSettles r) s)) = currentQuestionIndex s"
  "score (state_of (step (LessonSettles r) s)) = score s"
  by (simp_all add: generateBtn_settled_counters split: option.splits request.splits)

lemma startQuizBtn_click_counters:
  "currentQuestionIndex (startQuizBtn_click s) = currentQuestionIndex s"
  "score (startQuizBtn_click s) = score s"
  by (simp_all add: startQuizBtn_click_def fetchAPI_call_def toggleLoading_def)

lemma flow_step_counters:
  "currentQuestionIndex (state_of (step (EditForm a b c) s)) = currentQuestionIndex s"
  "score (state_of (step (EditForm a b c) s)) = score s"
  "currentQuestionIndex (state_of (step GenerateClick s)) = currentQuestionIndex s"
  "score (state_of (step GenerateClick s)) = score s"
  "currentQuestionIndex (state_of (step StartQuizClick s)) = currentQuestionIndex s"
  "score (state_of (step StartQuizClick s)) = score s"
  by (simp_all add: generateBtn_click_counters startQuizBtn_click_counters)

lemma lesson_flow_counters:
  "currentQuestionIndex
     (run [EditForm a b c, GenerateClick, LessonSettles r, StartQuizClick] (restartBtn_click s0)) = 0"
  "score
     (run [EditForm a b c, GenerateClick, LessonSettles r, StartQuizClick] (restartBtn_click s0)) = 0"
proof -
  have z: "currentQuestionIndex (restartBtn_click s0) = 0" "score (restartBtn_click s0) = 0"
    by (simp_all add: restartBtn_click_def resetUI_def)
  show "currentQuestionIndex
     (run [EditForm a b c, GenerateClick, LessonSettles r, StartQuizClick] (restartBtn_click s0)) = 0"
    by (simp only: run.simps flow_step_counters lesson_step_counters z)
  show "score
     (run [EditForm a b c, GenerateClick, LessonSettles r, StartQuizClick] (restartBtn_click s0)) = 0"
    by (simp only: run.simps flow_step_counters lesson_step_counters z)
qed

text \<open>
  C7, as the code has it. On a successful response with a question sequence that has a
  question at the current index (for an index of 0: a non-empty sequence), the handler
  stores the sequence as the quiz, leaves \<open>currentQuestionIndex\<close> and \<open>score\<close> at their
  values before the call, goes from the Lesson screen to the Quiz screen, renders the
  question at the current index (its 1-based number, the number of questions, its text and
  its options in their order) with empty feedback and the submit button shown, and hides the
  spinner. Both counters are 0 before the call when the start-quiz click follows a restart
  through the form, the generate click and the lesson response alone, whatever that
  response is and whatever the state before the restart.
\<close>

theorem startQuiz_success:
  assumes "response_ok status" and "currentQuestionIndex s < length qs"
  shows "thrown (startQuizBtn_settled (Response status (Json (Some qs))) s) = None \<and>
    quizData (state_of (startQuizBtn_settled (Response status (Json (Some qs))) s)) = Some qs \<and>
    currentQuestionIndex (state_of (startQuizBtn_settled (Response status (Json (Some qs))) s)) =
      currentQuestionIndex s \<and>
    score (state_of (startQuizBtn_settled (Response status (Json (Some qs))) s)) = score s \<and>
    (shown s = [Lesson] \<longrightarrow>
       shown (state_of (startQuizBtn_settled (Response status (Json (Some qs))) s)) = [Quiz]) \<and>
    quizContent_html (state_of (startQuizBtn_settled (Response status (Json (Some qs))) s)) =
      Some \<lparr>qv_number = currentQuestionIndex s + 1, qv_total = length qs,
            qv_question = question (qs ! currentQuestionIndex s),
            qv_options = options (qs ! currentQuestionIndex s)\<rparr> \<and>
    feedbackSection_html (state_of (startQuizBtn_settled (Response status (Json (Some qs))) s)) =
      FeedbackEmpty \<and>
    \<not> submitAnswerBtn_hidden
        (state_of (startQuizBtn_settled (Response status (Json (Some qs))) s)) \<and>
    loadingSpinner_hidden
      (state_of (startQuizBtn_settled (Response status (Json (Some qs))) s)) \<and>
    currentQuestionIndex
      (run [EditForm a b c, GenerateClick, LessonSettles r, StartQuizClick]
         (restartBtn_click s0)) = 0 \<and>
    score
      (run [EditForm a b c, GenerateClick, LessonSettles r, StartQuizClick]
         (restartBtn_click s0)) = 0"
proof -
  have m: "thrown (startQuizBtn_settled (Response status (Json (Some qs))) s) = None \<and>
    quizData (state_of (startQuizBtn_settled (Response status (Json (Some qs))) s)) = Some qs \<and>
    currentQuestionIndex (state_of (startQuizBtn_settled (Response status (Json (Some qs))) s)) =
      currentQuestionIndex s \<and>
    score (state_of (startQuizBtn_settled (Response status (Json (Some qs))) s)) = score s \<and>
    (shown s = [Lesson] \<longrightarrow>
       shown (state_of (startQuizBtn_settled (Response status (Json (Some qs))) s)) = [Quiz]) \<and>
    quizContent_html (state_of (startQuizBtn_settled (Response status (Json (Some qs))) s)) =
      Some \<lparr>qv_number = currentQuestionIndex s + 1, qv_total = length qs,
            qv_question = question (qs ! currentQuestionIndex s),
            qv_options = options (qs ! currentQuestionIndex s)\<rparr> \<and>
    feedbackSection_html (state_of (startQuizBtn_settled (Response status (Json (Some qs))) s)) =
      FeedbackEmpty \<and>
    \<not> submitAnswerBtn_hidden
        (state_of (startQuizBtn_settled (Response status (Json (Some qs))) s)) \<and>
    loadingSpinner_hidden
      (state_of (startQuizBtn_settled (Response status (Json (Some qs))) s))"
    using assms
    by (auto simp: startQuizBtn_settled_def fetchAPI_data_def fetchAPI_settle_def
        toggleLoading_def displayQuestion_def render_question_def shown_def Let_def
        split: if_splits)
  show ?thesis
    using m lesson_flow_counters [of a b c r s0] by blast
qed

theorem startQuiz_success_witness:
  "response_ok 200 \<and>
   currentQuestionIndex (run (to_lesson @ [StartQuizClick]) (initial_state example_page)) <
     length [q1, q2] \<and>
   currentQuestionIndex (run (to_lesson @ [StartQuizClick]) (initial_state example_page)) = 0 \<and>
   shown (run (to_lesson @ [StartQuizClick]) (initial_state example_page)) = [Lesson] \<and>
   quizData (state_of (startQuizBtn_settled (Response 200 (Json (Some [q1, q2])))
     (run (to_lesson @ [StartQuizClick]) (initial_state example_page)))) = Some [q1, q2] \<and>
   shown (state_of (startQuizBtn_settled (Response 200 (Json (Some [q1, q2])))
     (run (to_lesson @ [StartQuizClick]) (initial_state example_page)))) = [Quiz] \<and>
   currentQuestionIndex (state_of (startQuizBtn_settled (Response 200 (Json (Some [q1, q2])))
     (run (to_lesson @ [StartQuizClick]) (initial_state example_page)))) =
     currentQuestionIndex (run (to_lesson @ [StartQuizClick]) (initial_state example_page)) \<and>
   quizContent_html (state_of (startQuizBtn_settled (Response 200 (Json (Some [q1, q2])))
     (run (to_lesson @ [StartQuizClick]) (initial_state example_page)))) =
     Some \<lparr>qv_number = 1, qv_total = 2, qv_question = ''1/2 + 1/4 = ?'',
           qv_options = [''3/4'', ''2/6'']\<rparr>"
proof -
  have h: "response_ok 200"
    by (simp add: response_ok_def)
  have z: "currentQuestionIndex
      (run (to_lesson @ [StartQuizClick]) (initial_state example_page)) = 0"
    by code_simp
  then have i: "currentQuestionIndex
      (run (to_lesson @ [StartQuizClick]) (initial_state example_page)) < length [q1, q2]"
    by simp
  have v: "shown (run (to_lesson @ [StartQuizClick]) (initial_state example_page)) = [Lesson]"
    by code_simp
  have c: "\<lparr>qv_number =
        currentQuestionIndex (run (to_lesson @ [StartQuizClick]) (initial_state example_page)) + 1,
      qv_total = length [q1, q2],
      qv_question = question ([q1, q2] !
        currentQuestionIndex (run (to_lesson @ [StartQuizClick]) (initial_state example_page))),
      qv_options = options ([q1, q2] !
        currentQuestionIndex (run (to_lesson @ [StartQuizClick]) (initial_state example_page)))\<rparr> =
     \<lparr>qv_number = 1, qv_total = 2, qv_question = ''1/2 + 1/4 = ?'',
           qv_options = [''3/4'', ''2/6'']\<rparr>"
    unfolding z by (simp add: q1_def)
  show ?thesis
    using h z i v startQuiz_success [OF h i] unfolding c by blast
qed

subsection \<open>Restart during the feedback delay\<close>

text \<open>
  C1 as stated fails: \<open>resetUI\<close> does not cancel the timer. When a restart follows an
  answer within the delay, the timer is still scheduled after the restart, and when it
  fires the index goes from 0 to 1, while the session starts with an index of 0.
\<close>

theorem stale_advance_counterexample:
  "timers (run (to_quiz [q1, q2] @ [SubmitClick (Some ''3/4''), RestartClick])
     (initial_state example_page)) = 1 \<and>
   currentQuestionIndex (run (to_quiz [q1, q2] @ [SubmitClick (Some ''3/4''), RestartClick])
     (initial_state example_page)) = 0 \<and>
   currentQuestionIndex (run stale_advance (initial_state example_page)) = 1 \<and>
   currentQuestionIndex (initial_state example_page) = 0"
  by code_simp

text \<open>
  C1, as the code has it. A restart does not cancel a scheduled advance. When the delay
  fires after the restart, the callback makes no transition to Result and renders no
  question: every field other than \<open>currentQuestionIndex\<close> (and the count of scheduled
  timers, now one less) has the value the restart gave it, so Setup is the only section
  shown, the quiz is \<open>null\<close> and the score is 0.
\<close>

theorem restart_then_stale_advance:
  assumes "0 < timers s"
  shows "(state_of (step TimerFires (restartBtn_click s)))\<lparr>currentQuestionIndex := 0\<rparr> =
      (restartBtn_click s)\<lparr>timers := timers s - 1\<rparr> \<and>
    shown (state_of (step TimerFires (restartBtn_click s))) = [Setup] \<and>
    quizData (state_of (step TimerFires (restartBtn_click s))) = None \<and>
    score (state_of (step TimerFires (restartBtn_click s))) = 0"
  using assms
  by (simp add: restartBtn_click_def resetUI_def advance_def shown_def Let_def)

theorem restart_then_stale_advance_witness:
  "0 < timers (run (to_quiz [q1, q2] @ [SubmitClick (Some ''3/4'')])
         (initial_state example_page)) \<and>
   shown (state_of (step TimerFires (restartBtn_click
     (run (to_quiz [q1, q2] @ [SubmitClick (Some ''3/4'')]) (initial_state example_page))))) =
     [Setup] \<and>
   score (state_of (step TimerFires (restartBtn_click
     (run (to_quiz [q1, q2] @ [SubmitClick (Some ''3/4'')]) (initial_state example_page))))) = 0"
proof -
  have h: "0 < timers (run (to_quiz [q1, q2] @ [SubmitClick (Some ''3/4'')])
      (initial_state example_page))"
    by code_simp
  show ?thesis
    using h restart_then_stale_advance [OF h] by blast
qed

subsection \<open>The result\<close>

lemma tier_of_fixed:
  "tier_of (PctFixed t) =
     (if 800 \<le> t then Excellent else if 600 \<le> t then Good else NeedsReview)"
  by (simp add: tier_of_def)

lemma showResults_view:
  "quizData s = Some qs \<Longrightarrow>
   resultText_html (state_of (showResults s)) =
     Some \<lparr>rv_score = score s, rv_total = length qs,
           rv_percentage = percentage_of (score s) (length qs),
           rv_tier = tier_of (percentage_of (score s) (length qs))\<rparr>"
  by (simp add: showResults_def Let_def)

lemma pct_4_5: "percentage_of 4 5 = PctFixed 800"
  by code_simp

lemma pct_3_5: "percentage_of 3 5 = PctFixed 600"
  by code_simp

lemma pct_2_5: "percentage_of 2 5 = PctFixed 400"
  by code_simp

text \<open>
  How far the double arithmetic is from the exact quotient: rounding to a double changes
  a value by at most one part in \<open>2 ^ 53\<close>, so the computed percentage is within
  \<open>300 / 2 ^ 53\<close> of \<open>100 * score / length\<close>, too little to carry a value across the
  middle between two tenths unless the exact value is that middle.
\<close>

lemma pow2_powi: "pow2 e = 2 powi e"
  by (simp add: pow2_def power_int_def power_one_over inverse_eq_divide)

lemma pow2_pos: "0 < pow2 e"
  by (simp add: pow2_powi)

lemma pow2_add: "pow2 (a + b) = pow2 a * pow2 b"
  by (simp add: pow2_powi power_int_add)

lemma of_int_bitlen_bounds:
  assumes "0 < a"
  shows "pow2 (bitlen a - 1) \<le> of_int a" and "of_int a < pow2 (bitlen a)"
proof -
  have b: "2 ^ nat (bitlen a - 1) \<le> a" "a < 2 ^ nat (bitlen a)"
    using bitlen_bounds [OF assms] by simp_all
  have g: "1 \<le> bitlen a"
    using assms bitlen_eq_zero_iff [of a] bitlen_nonneg [of a] by linarith
  have "(of_int (2 ^ nat (bitlen a - 1)) :: rat) \<le> of_int a"
    using b(1) by (simp only: of_int_le_iff)
  then show "pow2 (bitlen a - 1) \<le> of_int a"
    using g by (simp add: pow2_def)
  have "(of_int a :: rat) < of_int (2 ^ nat (bitlen a))"
    using b(2) by (simp only: of_int_less_iff)
  then show "of_int a < pow2 (bitlen a)"
    using g by (simp add: pow2_def)
qed

lemma ilog2_bounds:
  assumes "0 < x"
  shows "pow2 (ilog2 x) \<le> x" and "x < pow2 (ilog2 x + 1)"
proof -
  obtain a b where ab: "quotient_of x = (a, b)"
    by (cases "quotient_of x")
  have bp: "0 < b"
    using ab by (rule quotient_of_denom_pos)
  have x: "x = of_int a / of_int b"
    using ab by (rule quotient_of_div)
  have ap: "0 < a"
    using assms bp unfolding x by (simp add: zero_less_divide_iff)
  define k where "k = bitlen a - bitlen b"
  have al: "pow2 (bitlen a - 1) \<le> of_int a" and au: "of_int a < pow2 (bitlen a)"
    using of_int_bitlen_bounds [OF ap] by simp_all
  have bl: "pow2 (bitlen b - 1) \<le> of_int b" and bu: "of_int b < pow2 (bitlen b)"
    using of_int_bitlen_bounds [OF bp] by simp_all
  have bpos: "(0::rat) < of_int b"
    using bp by simp
  have up: "x < pow2 (k + 1)"
  proof -
    have "of_int a < pow2 (k + 1) * pow2 (bitlen b - 1)"
      using au by (simp add: k_def pow2_add [symmetric])
    also have "\<dots> \<le> pow2 (k + 1) * of_int b"
      using bl pow2_pos [of "k + 1"] by simp
    finally show ?thesis
      unfolding x using bpos by (simp add: pos_divide_less_eq)
  qed
  have lo: "pow2 (k - 1) \<le> x"
  proof -
    have "pow2 (k - 1) * of_int b \<le> pow2 (k - 1) * pow2 (bitlen b)"
      using bu pow2_pos [of "k - 1"] by simp
    also have "\<dots> = pow2 (bitlen a - 1)"
      by (simp add: k_def pow2_add [symmetric])
    also have "\<dots> \<le> of_int a"
      by (rule al)
    finally show ?thesis
      unfolding x using bpos by (simp add: pos_le_divide_eq)
  qed
  have i: "ilog2 x = (if pow2 k \<le> x then k else k - 1)"
    by (simp add: ilog2_def ab k_def Let_def)
  show "pow2 (ilog2 x) \<le> x"
    using lo by (simp add: i)
  show "x < pow2 (ilog2 x + 1)"
    using up by (auto simp: i)
qed

lemma round_even_err: "\<bar>of_int (round_even y) - y\<bar> \<le> 1 / 2"
proof -
  have f: "of_int \<lfloor>y\<rfloor> \<le> y" "y < of_int \<lfloor>y\<rfloor> + 1"
    by linarith+
  show ?thesis
    using f by (auto simp: round_even_def Let_def abs_le_iff)
qed

lemma to_double_err:
  assumes "0 \<le> x"
  shows "\<bar>to_double x - x\<bar> \<le> x / 2 ^ 53"
proof (cases "x = 0")
  case True
  then show ?thesis by (simp add: to_double_def)
next
  case False
  with assms have xp: "0 < x" by simp
  define e where "e = ilog2 x - 52"
  define m where "m = round_even (x / pow2 e)"
  have td: "to_double x = of_int m * pow2 e"
    using xp by (simp add: to_double_def e_def m_def Let_def)
  have pe: "0 < pow2 e"
    by (rule pow2_pos)
  have "\<bar>of_int m - x / pow2 e\<bar> \<le> 1 / 2"
    unfolding m_def by (rule round_even_err)
  then have "\<bar>of_int m - x / pow2 e\<bar> * pow2 e \<le> 1 / 2 * pow2 e"
    using pe by (simp only: mult_le_cancel_right_pos)
  moreover have "\<bar>of_int m - x / pow2 e\<bar> * pow2 e = \<bar>of_int m * pow2 e - x\<bar>"
  proof -
    have "\<bar>of_int m - x / pow2 e\<bar> * pow2 e = \<bar>(of_int m - x / pow2 e) * pow2 e\<bar>"
      using pe by (simp add: abs_mult)
    also have "(of_int m - x / pow2 e) * pow2 e = of_int m * pow2 e - x"
      using pe by (simp add: field_simps)
    finally show ?thesis .
  qed
  ultimately have d: "\<bar>to_double x - x\<bar> \<le> pow2 e / 2"
    by (simp add: td)
  have "pow2 (ilog2 x) = pow2 e * pow2 52"
    by (simp add: e_def pow2_add [symmetric])
  then have "pow2 e * 2 ^ 52 \<le> x"
    using ilog2_bounds(1) [OF xp] by (simp add: pow2_def)
  then have "pow2 e / 2 \<le> x / 2 ^ 53"
    by (simp add: field_simps)
  with d show ?thesis
    by linarith
qed

lemma js_percent_err:
  assumes "sc \<le> n" and "0 < n"
  shows "\<bar>js_percent sc n - 100 * of_nat sc / of_nat n\<bar> \<le> 300 / 2 ^ 53"
proof -
  define q :: rat where "q = of_nat sc / of_nat n"
  define q1 where "q1 = to_double q"
  have q0: "0 \<le> q" and q1': "q \<le> 1"
    using assms by (simp_all add: q_def)
  have e1: "\<bar>q1 - q\<bar> \<le> q / 2 ^ 53"
    unfolding q1_def using q0 by (rule to_double_err)
  have e1': "\<bar>q1 - q\<bar> \<le> 1 / 2 ^ 53"
    using e1 q1' by (simp add: field_simps)
  have b1: "0 \<le> q1" "q1 \<le> 2"
  proof -
    have "q / 2 ^ 53 \<le> q"
      using q0 by (simp add: field_simps)
    with e1 have "\<bar>q1 - q\<bar> \<le> q"
      by linarith
    then show "0 \<le> q1" "q1 \<le> 2"
      using q1' by linarith+
  qed
  have p0: "0 \<le> q1 * 100"
    using b1 by simp
  have e2: "\<bar>to_double (q1 * 100) - q1 * 100\<bar> \<le> q1 * 100 / 2 ^ 53"
    using p0 by (rule to_double_err)
  have e2': "\<bar>to_double (q1 * 100) - q1 * 100\<bar> \<le> 200 / 2 ^ 53"
    using e2 b1 by (simp add: field_simps)
  have j: "js_percent sc n = to_double (q1 * 100)"
    by (simp add: js_percent_def q1_def q_def)
  have "\<bar>to_double (q1 * 100) - 100 * q\<bar> \<le> 300 / 2 ^ 53"
    using e1' e2' by linarith
  then show ?thesis
    by (simp add: j q_def)
qed

lemma nearest_tenth:
  assumes "sc \<le> n" and "0 < n" and "n < 2 ^ 32"
  shows "\<bar>of_int (round (10 * js_percent sc n)) / 10 - 100 * of_nat sc / of_nat n\<bar>
    \<le> (1 / 20 :: rat)"
proof -
  define t where "t = round (10 * js_percent sc n)"
  define d where "d = 2 * t * int n - 2000 * int sc"
  define x :: rat where "x = of_nat sc / of_nat n"
  have np: "(0::rat) < of_nat n"
    using assms(2) by simp
  have r: "\<bar>of_int t - 10 * js_percent sc n\<bar> \<le> 1 / 2"
    unfolding t_def by (rule of_int_round_abs_le)
  have e: "\<bar>js_percent sc n - 100 * x\<bar> \<le> 300 / 2 ^ 53"
    using js_percent_err [OF assms(1,2)] by (simp add: x_def)
  have a: "\<bar>of_int t - 1000 * x\<bar> \<le> 1 / 2 + 3000 / 2 ^ 53"
    using r e by linarith
  have dn: "of_int d = (of_int t - 1000 * x) * (2 * of_nat n)"
    using np by (simp add: d_def x_def field_simps)
  have n32: "(of_nat n :: rat) < 2 ^ 32"
    using assms(3) by (metis of_nat_less_iff of_nat_numeral of_nat_power)
  have "\<bar>(of_int d :: rat)\<bar> = \<bar>of_int t - 1000 * x\<bar> * (2 * of_nat n)"
    unfolding dn using np by (simp add: abs_mult)
  also have "\<dots> \<le> (1 / 2 + 3000 / 2 ^ 53) * (2 * of_nat n)"
    using a np by (intro mult_right_mono) simp_all
  also have "\<dots> = of_nat n + 6000 * of_nat n / 2 ^ 53"
    by (simp add: field_simps)
  also have "\<dots> < of_nat n + 1"
    using n32 by (simp add: field_simps)
  finally have "\<bar>(of_int d :: rat)\<bar> < of_int (int n + 1)"
    by simp
  then have "\<bar>d\<bar> < int n + 1"
    by (metis of_int_abs of_int_less_iff)
  then have "\<bar>d\<bar> \<le> int n"
    by simp
  then have "\<bar>(of_int d :: rat)\<bar> \<le> of_nat n"
    by (metis of_int_abs of_int_le_iff of_int_of_nat_eq)
  then have "\<bar>of_int t - 1000 * x\<bar> * (2 * of_nat n) \<le> (1 / 2) * (2 * of_nat n)"
    unfolding dn using np by (simp add: abs_mult)
  then have "\<bar>of_int t - 1000 * x\<bar> \<le> 1 / 2"
    using np by (simp only: mult_le_cancel_right_pos zero_less_mult_iff zero_less_numeral
        simp_thms)
  then have "\<bar>of_int t / 10 - 100 * x\<bar> \<le> 1 / 20"
    by linarith
  then show ?thesis
    by (simp add: t_def x_def)
qed

text \<open>
  C6. For a quiz of length above 0 the percentage is the number with one decimal nearest
  to the value of \<open>(score / quizData.length) * 100\<close>, the larger one when two are
  equally near; for a length that an array can have (below \<open>2 ^ 32\<close>) and a score not
  above the length it is a number with one decimal nearest to the exact
  \<open>100 * score / length\<close>. The tier is decided on that
  percentage with inclusive lower bounds: at least 80.0 is excellent, at least 60.0 and
  below 80.0 is good, below 60.0 is needs review. \<open>showResults\<close> writes the score, the
  length, this percentage and this tier. 4 of 5 gives 80.0 and excellent, 3 of 5 gives 60.0
  and good, 2 of 5 gives 40.0 and needs review.
\<close>

theorem result_percentage_and_tier:
  "(0 < n \<longrightarrow>
      percentage_of sc n = PctFixed (round (10 * js_percent sc n)) \<and>
      \<bar>of_int (round (10 * js_percent sc n)) / 10 - js_percent sc n\<bar> \<le> 1 / 20) \<and>
   (0 < n \<and> n < 2 ^ 32 \<and> sc \<le> n \<longrightarrow>
      \<bar>of_int (round (10 * js_percent sc n)) / 10 - 100 * of_nat sc / of_nat n\<bar>
        \<le> (1 / 20 :: rat)) \<and>
   tier_of (PctFixed t) =
     (if 800 \<le> t then Excellent else if 600 \<le> t then Good else NeedsReview) \<and>
   (quizData s = Some qs \<longrightarrow>
      resultText_html (state_of (showResults s)) =
        Some \<lparr>rv_score = score s, rv_total = length qs,
              rv_percentage = percentage_of (score s) (length qs),
              rv_tier = tier_of (percentage_of (score s) (length qs))\<rparr>) \<and>
   percentage_of 4 5 = PctFixed 800 \<and> tier_of (percentage_of 4 5) = Excellent \<and>
   percentage_of 3 5 = PctFixed 600 \<and> tier_of (percentage_of 3 5) = Good \<and>
   percentage_of 2 5 = PctFixed 400 \<and> tier_of (percentage_of 2 5) = NeedsReview"
proof -
  have "\<bar>of_int (round (10 * js_percent sc n)) - 10 * js_percent sc n\<bar> \<le> 1 / 2"
    by (rule of_int_round_abs_le)
  then have r: "\<bar>of_int (round (10 * js_percent sc n)) / 10 - js_percent sc n\<bar> \<le> 1 / 20"
    by (simp add: abs_le_iff field_simps)
  have a: "0 < n \<longrightarrow>
      percentage_of sc n = PctFixed (round (10 * js_percent sc n)) \<and>
      \<bar>of_int (round (10 * js_percent sc n)) / 10 - js_percent sc n\<bar> \<le> 1 / 20"
    using r by (simp add: percentage_of_def)
  have x: "0 < n \<and> n < 2 ^ 32 \<and> sc \<le> n \<longrightarrow>
      \<bar>of_int (round (10 * js_percent sc n)) / 10 - 100 * of_nat sc / of_nat n\<bar>
        \<le> (1 / 20 :: rat)"
    using nearest_tenth [of sc n] by blast
  have c: "quizData s = Some qs \<longrightarrow>
      resultText_html (state_of (showResults s)) =
        Some \<lparr>rv_score = score s, rv_total = length qs,
              rv_percentage = percentage_of (score s) (length qs),
              rv_tier = tier_of (percentage_of (score s) (length qs))\<rparr>"
    using showResults_view [of s qs] by blast
  have e: "tier_of (percentage_of 4 5) = Excellent"
    by (simp add: pct_4_5 tier_of_fixed)
  have g: "tier_of (percentage_of 3 5) = Good"
    by (simp add: pct_3_5 tier_of_fixed)
  have n: "tier_of (percentage_of 2 5) = NeedsReview"
    by (simp add: pct_2_5 tier_of_fixed)
  show ?thesis
    by (intro conjI a x tier_of_fixed c pct_4_5 e pct_3_5 g pct_2_5 n)
qed

theorem result_percentage_and_tier_witness:
  "(0::nat) < 5 \<and> (5::nat) < 2 ^ 32 \<and> (4::nat) \<le> 5 \<and>
   quizData quiz_begun = Some [q1, q2] \<and>
   percentage_of 4 5 = PctFixed (round (10 * js_percent 4 5)) \<and>
   \<bar>of_int (round (10 * js_percent 4 5)) / 10 - 100 * of_nat 4 / of_nat 5\<bar>
     \<le> (1 / 20 :: rat) \<and>
   resultText_html (state_of (showResults quiz_begun)) =
     Some \<lparr>rv_score = score quiz_begun, rv_total = length [q1, q2],
           rv_percentage = percentage_of (score quiz_begun) (length [q1, q2]),
           rv_tier = tier_of (percentage_of (score quiz_begun) (length [q1, q2]))\<rparr>"
proof -
  have h: "(0::nat) < 5" "(5::nat) < 2 ^ 32" "(4::nat) \<le> 5"
    by simp_all
  have q: "quizData quiz_begun = Some [q1, q2]"
    by code_simp
  show ?thesis
    using h q result_percentage_and_tier [of 5 4 0 quiz_begun "[q1, q2]"]
    by blast
qed

subsection \<open>Quiz runs\<close>

lemma shown_Quiz_iff:
  "shown s = [Quiz] \<longleftrightarrow>
     setupSection_hidden s \<and> lessonSection_hidden s \<and> \<not> quizSection_hidden s \<and>
     resultSection_hidden s"
  by (auto simp: shown_def)

lemma shown_Result_iff:
  "shown s = [Result] \<longleftrightarrow>
     setupSection_hidden s \<and> lessonSection_hidden s \<and> quizSection_hidden s \<and>
     \<not> resultSection_hidden s"
  by (auto simp: shown_def)

lemma submit_none: "step (SubmitClick None) s = Done (s\<lparr>alerts := alerts s @ [answer_alert]\<rparr>)"
  by (simp add: submitAnswerBtn_click_def)

lemma submit_some:
  assumes "quizData s = Some qs" and "currentQuestionIndex s < length qs"
  shows "step (SubmitClick (Some a)) s =
    Done (s\<lparr>score := (if a = answer (qs ! currentQuestionIndex s) then score s + 1 else score s),
            feedbackSection_html :=
              (if a = answer (qs ! currentQuestionIndex s)
               then FeedbackCorrect (explanation (qs ! currentQuestionIndex s))
               else FeedbackIncorrect (answer (qs ! currentQuestionIndex s))
                      (explanation (qs ! currentQuestionIndex s))),
            submitAnswerBtn_hidden := True,
            timers := timers s + 1\<rparr>)"
  using assms by (simp add: submitAnswerBtn_click_def Let_def)

lemma timer_next:
  assumes "quizData s = Some qs" and "0 < timers s" and "currentQuestionIndex s + 1 < length qs"
  shows "step TimerFires s =
    Done (s\<lparr>timers := timers s - 1,
            currentQuestionIndex := currentQuestionIndex s + 1,
            feedbackSection_html := FeedbackEmpty,
            submitAnswerBtn_hidden := False,
            quizContent_html :=
              Some (render_question (currentQuestionIndex s + 1) (length qs)
                      (qs ! (currentQuestionIndex s + 1)))\<rparr>)"
  using assms by (simp add: advance_def displayQuestion_def Let_def)

lemma timer_last:
  assumes "quizData s = Some qs" and "0 < timers s" and "\<not> currentQuestionIndex s + 1 < length qs"
  shows "step TimerFires s =
    Done (s\<lparr>timers := timers s - 1,
            currentQuestionIndex := currentQuestionIndex s + 1,
            quizSection_hidden := True,
            resultSection_hidden := False,
            resultText_html :=
              Some \<lparr>rv_score = score s, rv_total = length qs,
                    rv_percentage = percentage_of (score s) (length qs),
                    rv_tier = tier_of (percentage_of (score s) (length qs))\<rparr>\<rparr>)"
  using assms by (simp add: advance_def showResults_def Let_def)

lemma quiz_inv_enabled:
  assumes "quiz_inv qs s" and "quiz_enabled e s"
  shows "currentQuestionIndex s < length qs"
  using assms by (cases e) (auto simp: quiz_inv_def)

lemma quiz_inv_step:
  assumes "quiz_inv qs s" and "quiz_enabled e s"
  shows "quiz_inv qs (state_of (step e s))"
proof (cases e)
  case (SubmitClick sel)
  show ?thesis
  proof (cases sel)
    case None
    show ?thesis
      using assms(1) unfolding SubmitClick None submit_none
      by (auto simp: quiz_inv_def shown_Quiz_iff shown_Result_iff split: if_splits)
  next
    case (Some a)
    have q: "quizData s = Some qs" and i: "currentQuestionIndex s < length qs"
      using assms quiz_inv_enabled by (auto simp: quiz_inv_def)
    have t: "timers s = 0"
      using assms SubmitClick by (auto simp: quiz_inv_def)
    show ?thesis
      using assms(1) i t unfolding SubmitClick Some submit_some [OF q i]
      by (auto simp: quiz_inv_def shown_Quiz_iff shown_Result_iff split: if_splits)
  qed
next
  case TimerFires
  have q: "quizData s = Some qs" and i: "currentQuestionIndex s < length qs"
    using assms quiz_inv_enabled by (auto simp: quiz_inv_def)
  have t: "0 < timers s" "timers s = 1"
    using assms TimerFires by (auto simp: quiz_inv_def)
  show ?thesis
  proof (cases "currentQuestionIndex s + 1 < length qs")
    case True
    show ?thesis
      using assms(1) True t unfolding TimerFires timer_next [OF q t(1) True]
      by (auto simp: quiz_inv_def shown_Quiz_iff shown_Result_iff split: if_splits)
  next
    case False
    show ?thesis
      using assms(1) False i t unfolding TimerFires timer_last [OF q t(1) False]
      by (auto simp: quiz_inv_def shown_Quiz_iff shown_Result_iff split: if_splits)
  qed
qed (use assms in simp_all)

lemma quiz_inv_run:
  "quiz_inv qs s \<Longrightarrow> quiz_run es s = Some s' \<Longrightarrow> quiz_inv qs s'"
proof (induction es arbitrary: s)
  case Nil
  then show ?case by simp
next
  case (Cons e es)
  from Cons.prems have en: "quiz_enabled e s" and r: "quiz_run es (state_of (step e s)) = Some s'"
    by (auto split: if_splits)
  from Cons.IH [OF quiz_inv_step [OF Cons.prems(1) en] r] show ?case .
qed

lemma quiz_start_inv: "quiz_start qs s \<Longrightarrow> quiz_inv qs s"
  by (auto simp: quiz_start_def quiz_inv_def)




lemma timer_score: "score (state_of (step TimerFires s)) = score s"
  by (simp add: advance_def displayQuestion_def showResults_def Let_def split: option.splits)

text \<open>
  C4. In every quiz run over \<open>n \<ge> 1\<close> questions, whatever is submitted, the score is at
  most \<open>n\<close> (and at most the number of questions answered; as a count it is never below
  0). A submission with a selected option adds exactly 1 to the score when the option is
  the very string stored as the answer of the current question, and leaves the score as it
  is otherwise; a submission without a selection and the delayed advance leave it as it is.
\<close>

theorem score_bounded_exact_match:
  assumes "quiz_start qs s0" and "quiz_run es s0 = Some s"
  shows "score s \<le> length qs \<and>
    score s \<le> currentQuestionIndex s + timers s \<and>
    (currentQuestionIndex s < length qs \<longrightarrow>
       score (state_of (step (SubmitClick (Some a)) s)) =
         (if a = answer (qs ! currentQuestionIndex s) then score s + 1 else score s)) \<and>
    score (state_of (step (SubmitClick None) s)) = score s \<and>
    score (state_of (step TimerFires s)) = score s"
proof -
  have inv: "quiz_inv qs s"
    using assms quiz_start_inv quiz_inv_run by blast
  then have q: "quizData s = Some qs"
    by (simp add: quiz_inv_def)
  have b: "score s \<le> length qs" "score s \<le> currentQuestionIndex s + timers s"
    using inv by (auto simp: quiz_inv_def)
  have c: "currentQuestionIndex s < length qs \<longrightarrow>
       score (state_of (step (SubmitClick (Some a)) s)) =
         (if a = answer (qs ! currentQuestionIndex s) then score s + 1 else score s)"
  proof
    assume i: "currentQuestionIndex s < length qs"
    show "score (state_of (step (SubmitClick (Some a)) s)) =
         (if a = answer (qs ! currentQuestionIndex s) then score s + 1 else score s)"
      unfolding submit_some [OF q i] by simp
  qed
  have n: "score (state_of (step (SubmitClick None) s)) = score s"
    unfolding submit_none by simp
  show ?thesis
    by (intro conjI b c n timer_score)
qed

theorem score_bounded_exact_match_witness:
  "quiz_start [q1, q2] quiz_begun \<and>
   quiz_run [SubmitClick (Some ''3/4''), TimerFires] quiz_begun =
     Some (run [SubmitClick (Some ''3/4''), TimerFires] quiz_begun) \<and>
   score (run [SubmitClick (Some ''3/4''), TimerFires] quiz_begun) \<le> length [q1, q2] \<and>
   score (run [SubmitClick (Some ''3/4''), TimerFires] quiz_begun) = 1 \<and>
   score (run [SubmitClick (Some ''3/4''), TimerFires, SubmitClick (Some ''1/2'')] quiz_begun) = 2 \<and>
   score (run [SubmitClick (Some ''3/4''), TimerFires, SubmitClick (Some ''1/2 '')] quiz_begun) = 1"
proof -
  have h: "quiz_start [q1, q2] quiz_begun"
    by code_simp
  have r: "quiz_run [SubmitClick (Some ''3/4''), TimerFires] quiz_begun =
     Some (run [SubmitClick (Some ''3/4''), TimerFires] quiz_begun)"
    by code_simp
  have e: "score (run [SubmitClick (Some ''3/4''), TimerFires] quiz_begun) = 1"
    "score (run [SubmitClick (Some ''3/4''), TimerFires, SubmitClick (Some ''1/2'')] quiz_begun) = 2"
    "score (run [SubmitClick (Some ''3/4''), TimerFires, SubmitClick (Some ''1/2 '')] quiz_begun) = 1"
    by code_simp+
  show ?thesis
    using h r e score_bounded_exact_match [OF h r] by blast
qed



end
